theory Spec2Isabelle
  imports Complex_Main "HOL-Library.While_Combinator" "HOL-Library.Word"
begin

section \<open>ARLBench: the DQN training core and the evaluator\<close>

text \<open>
  A shallow embedding of \<^verbatim>\<open>arlbench/algorithms/algorithm.py\<close> (class \<^verbatim>\<open>Algorithm\<close>) and
  \<^verbatim>\<open>arlbench/algorithms/dqn_vw.py\<close> (class \<^verbatim>\<open>DQN\<close>).

  Conventions of the embedding:
  \<^item> JAX arrays of floats are lists of \<open>real\<close>: floating-point rounding is idealised away.
    The one place where the code can produce a NaN from well-formed finite inputs (an
    out-of-range \<^verbatim>\<open>.take\<close>) is written out as \<open>None\<close>.
  \<^item> A batched quantity (one entry per parallel environment) is a list with one entry per
    environment; elementwise arithmetic is \<open>zip\<close>/\<open>map\<close>. JAX rejects operands whose
    shapes disagree when it traces the function, so the lists that meet in one \<open>zip\<close>
    have the same length in every execution that runs at all.
  \<^item> \<^verbatim>\<open>global_step\<close> is carried through \<^verbatim>\<open>jax.jit\<close> and \<^verbatim>\<open>jax.lax.scan\<close> as a 32-bit signed
    integer and wraps around: it is a \<open>32 word\<close>, read with \<open>sint\<close>. Configuration values
    are Python integers: \<open>int\<close>, or \<open>nat\<close> for counts that are used as loop lengths; they
    fit in 32 bits (JAX rejects a Python integer that does not when it meets an array).
  \<^item> Random keys, environment states, observations, optimizer states and the \<^verbatim>\<open>info\<close>
    value are opaque: type variables \<open>'k\<close>, \<open>'es\<close>, \<open>'o\<close>, \<open>'os\<close>, \<open>'i\<close>.
  \<^item> Closures of the source (\<^verbatim>\<open>take_step\<close>, \<^verbatim>\<open>do_update\<close>, ...) take the variables they
    capture as explicit arguments, with the value those variables hold when the closure
    is called.
\<close>

subsection \<open>Action spaces and \<^verbatim>\<open>Algorithm.action_type\<close>\<close>

datatype space_lib = Gymnax | Gym | Gymnasium

text \<open>
  The classes \<^verbatim>\<open>action_type\<close> tests with \<^verbatim>\<open>isinstance\<close>: \<^verbatim>\<open>Discrete\<close> (with its \<^verbatim>\<open>n\<close>)
  and \<^verbatim>\<open>Box\<close> (with its \<^verbatim>\<open>shape\<close>) of the three libraries, and everything else.
\<close>

datatype action_space =
    Discrete space_lib nat
  | Box space_lib "nat list"
  | OtherSpace string

datatype py_error = NotImplementedError | IndexError | ZeroDivisionError | ValueError

fun action_type :: "action_space \<Rightarrow> py_error + (nat \<times> bool)" where
  "action_type (Discrete lib n) = Inr (n, True)"
| "action_type (Box lib shape) =
     (case shape of [] \<Rightarrow> Inl IndexError | d # _ \<Rightarrow> Inr (d, False))"
| "action_type (OtherSpace name) = Inl NotImplementedError"

subsection \<open>Configuration\<close>

text \<open>
  The keys of \<^verbatim>\<open>hpo_config\<close> that the code reads. \<^verbatim>\<open>buffer_beta\<close> is the only key the
  code tests for presence (\<^verbatim>\<open>"buffer_beta" in self.hpo_config.keys()\<close>).
\<close>

record hpo_config =
  buffer_size :: nat
  buffer_batch_size :: nat
  buffer_prio_sampling :: bool
  buffer_alpha :: real
  buffer_beta :: "real option"
  buffer_epsilon :: real
  lr :: real
  gamma :: real
  tau :: real
  epsilon :: real
  use_target_network :: bool
  train_frequency :: nat
  learning_starts :: int
  target_network_update_freq :: nat

datatype activation_fn = Tanh | Relu

record nas_config =
  activation :: activation_fn
  hidden_size :: nat

record env_options =
  n_envs :: nat
  n_total_timesteps :: nat

definition get_default_nas_config :: nas_config where
  "get_default_nas_config = \<lparr>activation = Tanh, hidden_size = 64\<rparr>"

text \<open>The defaults that \<^verbatim>\<open>get_hpo_config_space\<close> declares.\<close>

definition get_default_hpo_config :: hpo_config where
  "get_default_hpo_config =
     \<lparr>buffer_size = 1000000, buffer_batch_size = 64, buffer_prio_sampling = False,
      buffer_alpha = 9 / 10, buffer_beta = Some (9 / 10), buffer_epsilon = 1 / 100000,
      lr = 25 / 100000, gamma = 99 / 100, tau = 1, epsilon = 1 / 10,
      use_target_network = True, train_frequency = 4, learning_starts = 10000,
      target_network_update_freq = 100\<rparr>"

subsection \<open>The environment, the network and the libraries\<close>

text \<open>The environment interface: \<^verbatim>\<open>reset\<close>, \<^verbatim>\<open>step\<close>, \<^verbatim>\<open>sample_action\<close>, \<^verbatim>\<open>action_space\<close>, \<^verbatim>\<open>n_envs\<close>.\<close>

record ('k, 'es, 'o, 'i) environment =
  action_space :: action_space
  env_n_envs :: nat
  env_reset :: "'k \<Rightarrow> 'es \<times> 'o list"
  env_step :: "'es \<Rightarrow> nat list \<Rightarrow> 'k \<Rightarrow> 'es \<times> ('o list \<times> real list \<times> bool list \<times> 'i)"
  sample_action :: "'k \<Rightarrow> nat"

text \<open>\<^verbatim>\<open>Q(action_size, discrete=..., activation=..., hidden_size=...)\<close>, as constructed.\<close>

record q_network =
  action_size :: nat
  discrete :: bool
  net_activation :: activation_fn
  net_hidden_size :: nat

text \<open>
  The sample function a buffer carries: the one \<^verbatim>\<open>make_prioritised_flat_buffer\<close> builds
  (priority-weighted), or \<^verbatim>\<open>functools.partial(uniform_sample, batch_size, sequence_length, period)\<close>.
\<close>

datatype sample_fn =
    PrioritisedSample
  | UniformSample nat nat nat

record buffer =
  max_length :: nat
  min_length :: nat
  sample_batch_size :: nat
  add_sequences :: bool
  add_batch_size :: nat
  priority_exponent :: real
  sample :: sample_fn

text \<open>
  Modelled from the spec: \<^verbatim>\<open>fbx.make_prioritised_flat_buffer\<close> (the flashbax library is
  not part of the sources). The spec's invariant on the configuration is that the batch
  size is at most the capacity. The constructor checks its arguments before it builds
  the buffer and divides the lengths by \<open>add_batch_size\<close>: a priority exponent outside
  \<open>[0, 1]\<close> or a sample batch larger than the capacity is a \<^verbatim>\<open>ValueError\<close>, an
  \<open>add_batch_size\<close> of 0 a \<^verbatim>\<open>ZeroDivisionError\<close>, and fewer than two rows per added
  batch, or a minimum length that the rows cannot hold, again a \<^verbatim>\<open>ValueError\<close>. The
  buffer it returns samples priority-weighted. \<open>DQN_init\<close> below takes the constructor
  as an argument, so that what is proved about construction holds for every constructor.
\<close>

type_synonym buffer_constructor =
  "nat \<Rightarrow> nat \<Rightarrow> nat \<Rightarrow> bool \<Rightarrow> nat \<Rightarrow> real \<Rightarrow> py_error + buffer"

definition make_prioritised_flat_buffer :: buffer_constructor where
  "make_prioritised_flat_buffer max_len min_len batch seqs add_batch prio_exp =
     (if prio_exp < 0 \<or> 1 < prio_exp then Inl ValueError
      else if max_len < batch then Inl ValueError
      else if add_batch = 0 then Inl ZeroDivisionError
      else if max_len < min_len div add_batch + 1 then Inl ValueError
      else if max_len div add_batch < 2 then Inl ValueError
      else Inr \<lparr>max_length = max_len, min_length = min_len, sample_batch_size = batch,
                add_sequences = seqs, add_batch_size = add_batch,
                priority_exponent = prio_exp, sample = PrioritisedSample\<rparr>)"

subsection \<open>\<^verbatim>\<open>DQN.__init__\<close>\<close>

text \<open>
  The fields the constructor sets. The constructor fails where \<^verbatim>\<open>action_type\<close> raises
  and, after that, where the construction of the buffer raises. \<open>fbx_make\<close> is
  \<^verbatim>\<open>fbx.make_prioritised_flat_buffer\<close>.
\<close>

record ('k, 'es, 'o, 'i) dqn =
  hpo :: hpo_config
  nas :: nas_config
  options :: env_options
  env :: "('k, 'es, 'o, 'i) environment"
  track_metrics :: bool
  track_trajectories :: bool
  network :: q_network
  buffer :: buffer

definition DQN_init ::
  "buffer_constructor \<Rightarrow> hpo_config \<Rightarrow> env_options \<Rightarrow> ('k, 'es, 'o, 'i) environment \<Rightarrow>
   nas_config option \<Rightarrow> bool \<Rightarrow> bool \<Rightarrow> py_error + ('k, 'es, 'o, 'i) dqn" where
  "DQN_init fbx_make hpo_cfg opts e nas_opt track_traj track_met =
     (let nas_cfg = (case nas_opt of None \<Rightarrow> get_default_nas_config | Some c \<Rightarrow> c) in
      case action_type (action_space e) of
        Inl err \<Rightarrow> Inl err
      | Inr (sz, discr) \<Rightarrow>
          (let net = \<lparr>action_size = sz, discrete = discr,
                      net_activation = activation nas_cfg,
                      net_hidden_size = hidden_size nas_cfg\<rparr>;
               prio_exp = (case buffer_beta hpo_cfg of Some b \<Rightarrow> b | None \<Rightarrow> 1)
           in case fbx_make (buffer_size hpo_cfg) (buffer_batch_size hpo_cfg)
                     (buffer_batch_size hpo_cfg) False (n_envs opts) prio_exp of
                Inl err \<Rightarrow> Inl err
              | Inr buf \<Rightarrow>
                  (let buf' = (if buffer_prio_sampling hpo_cfg
                               then buf\<lparr>sample :=
                                          UniformSample (buffer_batch_size hpo_cfg) 2 1\<rparr>
                               else buf)
                   in Inr \<lparr>hpo = hpo_cfg, nas = nas_cfg, options = opts, env = e,
                           track_metrics = track_met, track_trajectories = track_traj,
                           network = net, buffer = buf'\<rparr>)))"

subsection \<open>Array operations of \<^verbatim>\<open>jax.numpy\<close>\<close>

text \<open>
  \<^verbatim>\<open>jnp.max\<close> and \<^verbatim>\<open>argmax\<close> along the last axis act on one row of action-values.
  \<^verbatim>\<open>argmax\<close> returns the first index of the maximum. Both reject an empty axis when the
  function is traced; the clause for \<open>[]\<close> only makes the functions total.
\<close>

fun jnp_max :: "real list \<Rightarrow> real" where
  "jnp_max [] = 0"
| "jnp_max (x # xs) = fold max xs x"

definition argmax :: "real list \<Rightarrow> nat" where
  "argmax xs = length (takeWhile (\<lambda>x. x \<noteq> jnp_max xs) xs)"

text \<open>
  \<^verbatim>\<open>a.take(i)\<close> reads the flattened array; an index out of range is filled with NaN
  (\<open>None\<close>).
\<close>

definition jnp_take :: "real list \<Rightarrow> nat \<Rightarrow> real option" where
  "jnp_take xs i = (if i < length xs then Some (xs ! i) else None)"

text \<open>\<^verbatim>\<open>q[arange(n), a]\<close> on one row: an index out of range is clamped to the last entry.\<close>

definition row_at :: "real list \<Rightarrow> nat \<Rightarrow> real" where
  "row_at row a = row ! min a (length row - 1)"

text \<open>\<^verbatim>\<open>jnp.power\<close> on a non-negative base: \<^verbatim>\<open>power(0., 0.)\<close> is 1.\<close>

definition jnp_power :: "real \<Rightarrow> real \<Rightarrow> real" where
  "jnp_power x a = (if a = 0 then 1 else x powr a)"

text \<open>
  The weight \<^verbatim>\<open>jnp.power(jnp.abs(td_error) + eps, alpha)\<close> of one entry. A NaN stays a
  NaN through \<^verbatim>\<open>abs\<close> and \<^verbatim>\<open>+\<close>, and \<^verbatim>\<open>power(nan, alpha)\<close> is NaN, except that
  \<^verbatim>\<open>power(nan, 0.)\<close> is 1.
\<close>

definition priority_weight :: "real \<Rightarrow> real \<Rightarrow> real option \<Rightarrow> real option" where
  "priority_weight eps alpha td =
     (case td of
        None \<Rightarrow> (if alpha = 0 then Some 1 else None)
      | Some e \<Rightarrow> Some (jnp_power (\<bar>e\<bar> + eps) alpha))"

definition mean :: "real list \<Rightarrow> real" where
  "mean xs = sum_list xs / real (length xs)"

text \<open>\<^verbatim>\<open>1 - done\<close> for a boolean \<^verbatim>\<open>done\<close>.\<close>

definition not_done :: "bool \<Rightarrow> real" where
  "not_done d = 1 - (if d then 1 else 0)"

text \<open>\<^verbatim>\<open>jax.lax.scan(f, init, None, length)\<close>: the final carry and the outputs of every step.\<close>

fun scan :: "('c \<Rightarrow> 'c \<times> 'y) \<Rightarrow> 'c \<Rightarrow> nat \<Rightarrow> 'c \<times> 'y list" where
  "scan f c 0 = (c, [])"
| "scan f c (Suc n) =
     (case f c of (c', y) \<Rightarrow> (case scan f c' n of (c'', ys) \<Rightarrow> (c'', y # ys)))"

subsection \<open>Timesteps and the replay buffer\<close>

text \<open>\<^verbatim>\<open>TimeStep\<close>, with one entry per environment in every field (\<open>done_flag\<close> is the
  field \<^verbatim>\<open>done\<close>).\<close>

record 'o timestep =
  last_obs :: "'o list"
  obs :: "'o list"
  action :: "nat list"
  reward :: "real list"
  done_flag :: "bool list"

text \<open>One stored item: (previous observation, new observation, action, reward, done).\<close>

type_synonym 'o item = "'o \<times> 'o \<times> nat \<times> real \<times> bool"

definition items_of :: "'o timestep \<Rightarrow> 'o item list" where
  "items_of t = zip (last_obs t) (zip (obs t) (zip (action t) (zip (reward t) (done_flag t))))"

text \<open>
  Modelled from the spec: the state and the operations \<^verbatim>\<open>add\<close> and \<^verbatim>\<open>set_priorities\<close> of
  the buffer that \<^verbatim>\<open>fbx.make_prioritised_flat_buffer\<close> returns (the flashbax library is
  not part of the sources). The state holds a circular store of timesteps, the current
  write index, one priority per slot and the valid length. \<^verbatim>\<open>add\<close> writes the batch
  starting at \<open>current_index\<close>, wrapping circularly, and advances \<open>current_index\<close> by the
  batch size modulo the capacity; it does not receive a TD error and leaves the
  priorities to \<^verbatim>\<open>set_priorities\<close>, which overwrites the priority at the given indices.
  A priority \<open>None\<close> is a NaN.
\<close>

record 'o buffer_state =
  experience :: "'o item list"
  current_index :: nat
  priorities :: "real option list"
  valid_length :: nat

definition capacity :: "'o buffer_state \<Rightarrow> nat" where
  "capacity bs = length (experience bs)"

definition add :: "'o buffer_state \<Rightarrow> 'o timestep \<Rightarrow> 'o buffer_state" where
  "add bs t =
     (let items = items_of t; cap = capacity bs; start = current_index bs in
      bs\<lparr>experience :=
            fold (\<lambda>(j, it) store. store[(start + j) mod cap := it])
                 (zip [0..<length items] items) (experience bs),
         current_index := (start + length items) mod cap,
         valid_length := min cap (valid_length bs + length items)\<rparr>)"

definition set_priorities ::
  "'o buffer_state \<Rightarrow> nat list \<Rightarrow> real option list \<Rightarrow> 'o buffer_state" where
  "set_priorities bs indices weights =
     bs\<lparr>priorities := fold (\<lambda>(i, w) ps. ps[i := w]) (zip indices weights) (priorities bs)\<rparr>"

subsection \<open>Train state and runner state\<close>

text \<open>\<^verbatim>\<open>DQNTrainState\<close>: parameters are the list of the leaves of the parameter tree.\<close>

record 'os train_state =
  step :: int
  params :: "real list"
  target_params :: "real list"
  opt_state :: 'os

record ('k, 'os, 'es, 'o) runner_state =
  rng :: 'k
  train_state :: "'os train_state"
  env_state :: 'es
  runner_obs :: "'o list"
  global_step :: "32 word"

text \<open>
  The library functions the code calls and whose code is not in the sources:
  \<^verbatim>\<open>jax.random.split\<close> and \<^verbatim>\<open>jax.random.uniform\<close>, \<^verbatim>\<open>self.network.apply\<close> (a matrix with
  one row of action-values per environment), the gradient of a scalar loss
  (\<^verbatim>\<open>jax.value_and_grad\<close>), the optimizer step behind \<^verbatim>\<open>apply_gradients\<close> (Adam), and what
  a sample function returns as \<^verbatim>\<open>.experience.first\<close>.
\<close>

record ('k, 'os, 'o) library =
  split :: "'k \<Rightarrow> 'k \<times> 'k"
  uniform :: "'k \<Rightarrow> real"
  apply_fn :: "real list \<Rightarrow> 'o list \<Rightarrow> real list list"
  grad :: "(real list \<Rightarrow> real) \<Rightarrow> real list \<Rightarrow> real list"
  tx :: "real list \<Rightarrow> 'os \<Rightarrow> real list \<Rightarrow> real list \<times> 'os"
  run_sample :: "sample_fn \<Rightarrow> 'o buffer_state \<Rightarrow> 'k \<Rightarrow> 'o timestep"

text \<open>\<^verbatim>\<open>TrainState.apply_gradients\<close>: replaces \<open>step\<close>, \<open>params\<close> and \<open>opt_state\<close>.\<close>

definition apply_gradients ::
  "('k, 'os, 'o) library \<Rightarrow> 'os train_state \<Rightarrow> real list \<Rightarrow> 'os train_state" where
  "apply_gradients lib ts grads =
     (case tx lib grads (opt_state ts) (params ts) of
        (new_params, new_opt_state) \<Rightarrow>
          ts\<lparr>step := step ts + 1, params := new_params, opt_state := new_opt_state\<rparr>)"

text \<open>
  Modelled from the spec: \<^verbatim>\<open>optax.incremental_update(new, old, step_size)\<close> (the optax
  library is not part of the sources): \<open>step_size * new + (1 - step_size) * old\<close> on every
  leaf. The two trees have the same structure (optax rejects the call otherwise).
\<close>

definition incremental_update :: "real list \<Rightarrow> real list \<Rightarrow> real \<Rightarrow> real list" where
  "incremental_update new_tensors old_tensors step_size =
     map2 (\<lambda>n old. step_size * n + (1 - step_size) * old) new_tensors old_tensors"

subsection \<open>\<^verbatim>\<open>DQN.predict\<close> and \<^verbatim>\<open>DQN.update\<close>\<close>

definition predict ::
  "('k, 'os, 'o) library \<Rightarrow> real list \<Rightarrow> 'o list \<Rightarrow> 'k \<Rightarrow> nat list" where
  "predict lib network_params obsv key = map argmax (apply_fn lib network_params obsv)"

text \<open>
  \<^verbatim>\<open>mse_loss\<close>, the inner function of \<^verbatim>\<open>update\<close>: the loss and the predicted values at
  the actions taken.
\<close>

definition mse_loss ::
  "('k, 'os, 'o) library \<Rightarrow> 'o list \<Rightarrow> nat list \<Rightarrow> real list \<Rightarrow> real list \<Rightarrow>
   real \<times> real list" where
  "mse_loss lib observations actions next_q_value ps =
     (let q_pred = map2 row_at (apply_fn lib ps observations) actions in
      (mean (map2 (\<lambda>q target. (q - target)\<^sup>2) q_pred next_q_value), q_pred))"

definition update ::
  "('k, 'os, 'o) library \<Rightarrow> ('k, 'es, 'o, 'i) dqn \<Rightarrow> 'os train_state \<Rightarrow>
   'o list \<Rightarrow> nat list \<Rightarrow> 'o list \<Rightarrow> real list \<Rightarrow> bool list \<Rightarrow>
   'os train_state \<times> real \<times> real list \<times> real list \<times> 'os" where
  "update lib self ts observations actions next_observations rewards dones =
     (let q_next = (if use_target_network (hpo self)
                    then apply_fn lib (target_params ts) next_observations
                    else apply_fn lib (params ts) next_observations);
          q_next_target = map jnp_max q_next;
          next_q_value =
            map2 (\<lambda>r (d, q). r + not_done d * gamma (hpo self) * q)
                 rewards (zip dones q_next_target);
          loss_value = fst (mse_loss lib observations actions next_q_value (params ts));
          q_pred = snd (mse_loss lib observations actions next_q_value (params ts));
          grads = grad lib (\<lambda>ps. fst (mse_loss lib observations actions next_q_value ps))
                    (params ts);
          ts' = apply_gradients lib ts grads
      in (ts', loss_value, q_pred, grads, opt_state ts'))"

subsection \<open>\<^verbatim>\<open>DQN._update_step\<close>\<close>

text \<open>
  The inner functions \<^verbatim>\<open>random_action\<close> and \<^verbatim>\<open>greedy_action\<close>. They read \<^verbatim>\<open>rng\<close>,
  \<^verbatim>\<open>train_state\<close> and \<^verbatim>\<open>last_obs\<close> of the enclosing \<^verbatim>\<open>_update_step\<close>.
\<close>

definition random_action :: "('k, 'es, 'o, 'i) dqn \<Rightarrow> 'k \<Rightarrow> nat list" where
  "random_action self key = replicate (n_envs (options self)) (sample_action (env self) key)"

definition greedy_action ::
  "('k, 'os, 'o) library \<Rightarrow> 'os train_state \<Rightarrow> 'o list \<Rightarrow> nat list" where
  "greedy_action lib ts last_observation = map argmax (apply_fn lib (params ts) last_observation)"

text \<open>\<^verbatim>\<open>no_target_td\<close> and \<^verbatim>\<open>target_td\<close>, inner functions of \<^verbatim>\<open>take_step\<close>.\<close>

definition no_target_td ::
  "('k, 'os, 'o) library \<Rightarrow> 'o list \<Rightarrow> 'os train_state \<Rightarrow> nat list" where
  "no_target_td lib obsv ts = map argmax (apply_fn lib (params ts) obsv)"

definition target_td ::
  "('k, 'os, 'o) library \<Rightarrow> 'o list \<Rightarrow> 'os train_state \<Rightarrow> nat list" where
  "target_td lib obsv ts = map argmax (apply_fn lib (target_params ts) obsv)"

text \<open>
  The expression assigned to \<^verbatim>\<open>td_error\<close> in \<^verbatim>\<open>take_step\<close>, one entry per environment:
  \<^verbatim>\<open>reward + (1 - done) * gamma * q_next_target - apply(params, last_obs).take(action)\<close>.
\<close>

definition td_error_of ::
  "('k, 'os, 'o) library \<Rightarrow> ('k, 'es, 'o, 'i) dqn \<Rightarrow> 'os train_state \<Rightarrow> 'o list \<Rightarrow>
   nat list \<Rightarrow> real list \<Rightarrow> bool list \<Rightarrow> nat list \<Rightarrow> real option list" where
  "td_error_of lib self ts last_observation act rew dn q_next_target =
     map (\<lambda>(r, d, qn, a).
            map_option (\<lambda>q. r + not_done d * gamma (hpo self) * real qn - q)
              (jnp_take (concat (apply_fn lib (params ts) last_observation)) a))
         (zip rew (zip dn (zip q_next_target act)))"

text \<open>
  One step of the rollout. The carry is \<^verbatim>\<open>(obsv, env_state, global_step, buffer_state)\<close>,
  the output \<^verbatim>\<open>(obsv, action, reward, done, info, td_error)\<close>. \<open>key\<close> and \<open>key'\<close> are
  \<^verbatim>\<open>rng\<close> and \<^verbatim>\<open>_rng\<close> of \<^verbatim>\<open>_update_step\<close>; \<open>ts\<close> and \<open>last_observation\<close> its \<^verbatim>\<open>train_state\<close>
  and \<^verbatim>\<open>last_obs\<close>.
\<close>

type_synonym ('es, 'o) carry = "'o list \<times> 'es \<times> 32 word \<times> 'o buffer_state"

type_synonym ('o, 'i) step_out =
  "'o list \<times> nat list \<times> real list \<times> bool list \<times> 'i \<times> real option list"

definition take_step ::
  "('k, 'os, 'o) library \<Rightarrow> ('k, 'es, 'o, 'i) dqn \<Rightarrow> 'k \<Rightarrow> 'k \<Rightarrow> 'os train_state \<Rightarrow>
   'o list \<Rightarrow> ('es, 'o) carry \<Rightarrow> ('es, 'o) carry \<times> ('o, 'i) step_out" where
  "take_step lib self key key' ts last_observation carry =
     (case carry of (obsv0, env_state0, global_step0, buffer_state0) \<Rightarrow>
      let act = (if uniform lib key < epsilon (hpo self)
                 then random_action self key
                 else greedy_action lib ts last_observation) in
      case env_step (env self) env_state0 act key' of
        (env_state1, (obsv, rew, dn, info)) \<Rightarrow>
      let q_next_target = (if use_target_network (hpo self)
                           then target_td lib obsv ts
                           else no_target_td lib obsv ts);
          td_error = td_error_of lib self ts last_observation act rew dn q_next_target;
          tstep = \<lparr>last_obs = last_observation, obs = obsv, action = act,
                   reward = rew, done_flag = dn\<rparr>;
          buffer_state1 = add buffer_state0 tstep;
          transition_weight =
            map (priority_weight (buffer_epsilon (hpo self)) (buffer_alpha (hpo self)))
                td_error;
          added_indices = map (\<lambda>i. i + current_index buffer_state1) [0..<length obsv];
          buffer_state2 = set_priorities buffer_state1 added_indices transition_weight;
          global_step1 = global_step0 + of_nat (n_envs (options self))
      in ((obsv, env_state1, global_step1, buffer_state2),
          (obsv, act, rew, dn, info, td_error)))"

text \<open>The \<^verbatim>\<open>action\<close> and the \<^verbatim>\<open>td_error\<close> of a step's output.\<close>

definition out_action :: "('o, 'i) step_out \<Rightarrow> nat list" where
  "out_action y = (case y of (ob, act, rew, dn, info, td) \<Rightarrow> act)"

definition out_td_error :: "('o, 'i) step_out \<Rightarrow> real option list" where
  "out_td_error y = (case y of (ob, act, rew, dn, info, td) \<Rightarrow> td)"

text \<open>The buffer state in a carry.\<close>

definition carry_buffer :: "('es, 'o) carry \<Rightarrow> 'o buffer_state" where
  "carry_buffer c = (case c of (ob, es, gs, bs) \<Rightarrow> bs)"

definition do_update ::
  "('k, 'os, 'o) library \<Rightarrow> ('k, 'es, 'o, 'i) dqn \<Rightarrow> 'k \<Rightarrow> 'os train_state \<Rightarrow>
   'o buffer_state \<Rightarrow> 'os train_state \<times> real \<times> real list \<times> real list \<times> 'os" where
  "do_update lib self key ts buffer_state0 =
     (let batch = run_sample lib (sample (buffer self)) buffer_state0 key in
      update lib self ts (last_obs batch) (action batch) (obs batch) (reward batch)
        (done_flag batch))"

definition dont_update ::
  "('k, 'es, 'o, 'i) dqn \<Rightarrow> 'os train_state \<Rightarrow> 'o buffer_state \<Rightarrow>
   'os train_state \<times> real \<times> real list \<times> real list \<times> 'os" where
  "dont_update self ts buffer_state0 =
     (ts, mean [((0::real) - 0)\<^sup>2], replicate (buffer_batch_size (hpo self)) 1,
      params ts, opt_state ts)"

definition target_update :: "('k, 'es, 'o, 'i) dqn \<Rightarrow> 'os train_state \<Rightarrow> 'os train_state" where
  "target_update self ts =
     ts\<lparr>target_params := incremental_update (params ts) (target_params ts) (tau (hpo self))\<rparr>"

definition dont_target_update :: "'os train_state \<Rightarrow> 'os train_state" where
  "dont_target_update ts = ts"

text \<open>The two conditions of \<^verbatim>\<open>_update_step\<close>, on the \<^verbatim>\<open>global_step\<close> the rollout returns.\<close>

definition update_gate :: "('k, 'es, 'o, 'i) dqn \<Rightarrow> 32 word \<Rightarrow> bool" where
  "update_gate self gs =
     (sint gs > learning_starts (hpo self) \<and>
      sint gs mod int (train_frequency (hpo self)) = 0)"

definition target_gate :: "('k, 'es, 'o, 'i) dqn \<Rightarrow> 32 word \<Rightarrow> bool" where
  "target_gate self gs =
     (sint gs > learning_starts (hpo self) \<and>
      sint gs mod int (target_network_update_freq (hpo self)) = 0)"

text \<open>The rollout: \<^verbatim>\<open>jax.lax.scan(take_step, ..., None, train_frequency)\<close>.\<close>

definition rollout ::
  "('k, 'os, 'o) library \<Rightarrow> ('k, 'es, 'o, 'i) dqn \<Rightarrow> 'k \<Rightarrow> 'k \<Rightarrow> 'os train_state \<Rightarrow>
   'o list \<Rightarrow> ('es, 'o) carry \<Rightarrow> ('es, 'o) carry \<times> ('o, 'i) step_out list" where
  "rollout lib self key key' ts last_observation carry =
     scan (take_step lib self key key' ts last_observation) carry (train_frequency (hpo self))"

text \<open>The two \<^verbatim>\<open>jax.lax.cond\<close> calls that follow the rollout.\<close>

definition cond_update ::
  "('k, 'os, 'o) library \<Rightarrow> ('k, 'es, 'o, 'i) dqn \<Rightarrow> 'k \<Rightarrow> 32 word \<Rightarrow> 'os train_state \<Rightarrow>
   'o buffer_state \<Rightarrow> 'os train_state \<times> real \<times> real list \<times> real list \<times> 'os" where
  "cond_update lib self key gs ts buffer_state0 =
     (if update_gate self gs then do_update lib self key ts buffer_state0
      else dont_update self ts buffer_state0)"

definition cond_target_update ::
  "('k, 'es, 'o, 'i) dqn \<Rightarrow> 32 word \<Rightarrow> 'os train_state \<Rightarrow> 'os train_state" where
  "cond_target_update self gs ts =
     (if target_gate self gs then target_update self ts else dont_target_update ts)"

text \<open>The metric: \<^verbatim>\<open>Transition\<close> and the two tuples \<^verbatim>\<open>_update_step\<close> can return.\<close>

datatype ('o, 'i) transition =
  Transition "bool list list" "nat list list" "real list" "real list list" "'o list list"
    "'i list"

datatype ('o, 'i) metric =
    TrajectoryMetric real "real list" "('o, 'i) transition" "real option list list"
  | PlainMetric real "real list" "real list" "real option list list"

text \<open>The actions a metric reports: the field \<^verbatim>\<open>action\<close> of its \<^verbatim>\<open>Transition\<close>, one entry per step.\<close>

fun metric_actions :: "('o, 'i) metric \<Rightarrow> nat list list option" where
  "metric_actions (TrajectoryMetric loss grads (Transition dn act q rew ob info) td) = Some act"
| "metric_actions (PlainMetric loss grads q_pred td) = None"

fun metric_loss :: "('o, 'i) metric \<Rightarrow> real" where
  "metric_loss (TrajectoryMetric loss grads traj td) = loss"
| "metric_loss (PlainMetric loss grads q_pred td) = loss"

definition make_metric ::
  "('k, 'es, 'o, 'i) dqn \<Rightarrow> real \<Rightarrow> real list \<Rightarrow> real list \<Rightarrow> ('o, 'i) step_out list \<Rightarrow>
   ('o, 'i) metric option" where
  "make_metric self loss grads q_pred outs =
     (let td_error = map (\<lambda>(ob, act, rew, dn, info, td). td) outs in
      if track_trajectories self then
        Some (TrajectoryMetric loss grads
               (Transition (map (\<lambda>(ob, act, rew, dn, info, td). dn) outs)
                           (map (\<lambda>(ob, act, rew, dn, info, td). act) outs)
                           q_pred
                           (map (\<lambda>(ob, act, rew, dn, info, td). rew) outs)
                           (map (\<lambda>(ob, act, rew, dn, info, td). ob) outs)
                           (map (\<lambda>(ob, act, rew, dn, info, td). info) outs))
               td_error)
      else if track_metrics self then Some (PlainMetric loss grads q_pred td_error)
      else None)"

text \<open>
  \<^verbatim>\<open>_update_step\<close>, one outer training iteration. \<^verbatim>\<open>target_update\<close> reads the variable
  \<^verbatim>\<open>train_state\<close> when it is called, that is the train state the first \<^verbatim>\<open>cond\<close> returned.
\<close>

definition update_step ::
  "('k, 'os, 'o) library \<Rightarrow> ('k, 'es, 'o, 'i) dqn \<Rightarrow>
   ('k, 'os, 'es, 'o) runner_state \<times> 'o buffer_state \<Rightarrow>
   (('k, 'os, 'es, 'o) runner_state \<times> 'o buffer_state) \<times> ('o, 'i) metric option" where
  "update_step lib self carry =
     (case carry of (runner_state0, buffer_state0) \<Rightarrow>
      case split lib (rng runner_state0) of (key, key') \<Rightarrow>
      case rollout lib self key key' (train_state runner_state0) (runner_obs runner_state0)
             (runner_obs runner_state0, env_state runner_state0,
              global_step runner_state0, buffer_state0) of
        ((last_obs1, env_state1, global_step1, buffer_state1), outs) \<Rightarrow>
      case cond_update lib self key global_step1 (train_state runner_state0) buffer_state1 of
        (ts1, loss, q_pred, grads, opt_state1) \<Rightarrow>
      let ts2 = cond_target_update self global_step1 ts1;
          runner_state1 = \<lparr>rng = key, train_state = ts2, env_state = env_state1,
                           runner_obs = last_obs1, global_step = global_step1\<rparr>
      in ((runner_state1, buffer_state1), make_metric self loss grads q_pred outs))"

text \<open>
  \<^verbatim>\<open>train\<close>: \<^verbatim>\<open>(n_total_timesteps // train_frequency) // n_envs\<close> outer iterations. The
  floor divisions are Python's, on Python integers.
\<close>

definition train ::
  "('k, 'os, 'o) library \<Rightarrow> ('k, 'es, 'o, 'i) dqn \<Rightarrow> ('k, 'os, 'es, 'o) runner_state \<Rightarrow>
   'o buffer_state \<Rightarrow>
   py_error + ((('k, 'os, 'es, 'o) runner_state \<times> 'o buffer_state) \<times>
               ('o, 'i) metric option list)" where
  "train lib self runner_state0 buffer_state0 =
     (if train_frequency (hpo self) = 0 \<or> n_envs (options self) = 0 then Inl ZeroDivisionError
      else Inr (scan (update_step lib self) (runner_state0, buffer_state0)
                  ((n_total_timesteps (options self) div train_frequency (hpo self))
                     div n_envs (options self))))"

subsection \<open>\<^verbatim>\<open>Algorithm._env_episode\<close>\<close>

text \<open>
  The state of the evaluation loop:
  \<^verbatim>\<open>(env_state, obs, reward, done, rng, runner_state)\<close>.
\<close>

type_synonym ('k, 'os, 'es, 'o) episode_state =
  "'es \<times> 'o list \<times> real list \<times> bool list \<times> 'k \<times> ('k, 'os, 'es, 'o) runner_state"

definition cond_fn :: "('k, 'os, 'es, 'o) episode_state \<Rightarrow> bool" where
  "cond_fn st = (case st of (es, ob, rew, dn, key, rs) \<Rightarrow> \<not> list_all id dn)"

text \<open>
  \<^verbatim>\<open>body_fn\<close>. \<open>predict_fn\<close> is the abstract method \<^verbatim>\<open>predict\<close>, called with the runner
  state. \<^verbatim>\<open>reward_ * ~done\<close> multiplies by 1 where \<^verbatim>\<open>done\<close> is false and by 0 where it is
  true.
\<close>

definition body_fn ::
  "('k, 'os, 'o) library \<Rightarrow> ('k, 'es, 'o, 'i) dqn \<Rightarrow>
   (('k, 'os, 'es, 'o) runner_state \<Rightarrow> 'o list \<Rightarrow> 'k \<Rightarrow> nat list) \<Rightarrow>
   ('k, 'os, 'es, 'o) episode_state \<Rightarrow> ('k, 'os, 'es, 'o) episode_state" where
  "body_fn lib self predict_fn st =
     (case st of (env_state0, ob, rew, dn, key, rs) \<Rightarrow>
      case split lib key of (key1, action_rng) \<Rightarrow>
      let act = predict_fn rs ob action_rng in
      case split lib key1 of (key2, step_rng) \<Rightarrow>
      case env_step (env self) env_state0 act step_rng of
        (env_state1, (ob1, rew1, dn1, info)) \<Rightarrow>
      (env_state1, ob1,
       map2 (\<lambda>r (r1, d). r + r1 * (if d then 0 else 1)) rew (zip rew1 dn),
       map2 (\<or>) dn dn1,
       key2, rs))"

text \<open>
  What the environment returns in the step that \<^verbatim>\<open>body_fn\<close> takes from a loop state: the
  rewards \<^verbatim>\<open>reward_\<close> and the done flags \<^verbatim>\<open>done_\<close>.
\<close>

definition env_report ::
  "('k, 'os, 'o) library \<Rightarrow> ('k, 'es, 'o, 'i) dqn \<Rightarrow>
   (('k, 'os, 'es, 'o) runner_state \<Rightarrow> 'o list \<Rightarrow> 'k \<Rightarrow> nat list) \<Rightarrow>
   ('k, 'os, 'es, 'o) episode_state \<Rightarrow> real list \<times> bool list" where
  "env_report lib self predict_fn st =
     (case st of (env_state0, ob, rew, dn, key, rs) \<Rightarrow>
      case split lib key of (key1, action_rng) \<Rightarrow>
      case split lib key1 of (key2, step_rng) \<Rightarrow>
      case env_step (env self) env_state0 (predict_fn rs ob action_rng) step_rng of
        (env_state1, (ob1, rew1, dn1, info)) \<Rightarrow> (rew1, dn1))"

text \<open>
  \<^verbatim>\<open>_env_episode\<close>: \<^verbatim>\<open>jax.lax.while_loop(cond_fn, body_fn, initial_state)\<close>. The result is
  \<open>None\<close> when the loop does not end.
\<close>

definition env_episode ::
  "('k, 'os, 'o) library \<Rightarrow> ('k, 'es, 'o, 'i) dqn \<Rightarrow>
   (('k, 'os, 'es, 'o) runner_state \<Rightarrow> 'o list \<Rightarrow> 'k \<Rightarrow> nat list) \<Rightarrow>
   ('k, 'os, 'es, 'o) runner_state \<Rightarrow>
   (('k, 'os, 'es, 'o) runner_state \<times> real list) option" where
  "env_episode lib self predict_fn runner_state0 =
     (case split lib (rng runner_state0) of (key, key') \<Rightarrow>
      case split lib key' of (key'', reset_rng) \<Rightarrow>
      case env_reset (env self) reset_rng of (env_state0, ob) \<Rightarrow>
      map_option (\<lambda>(es, ob1, rew, dn, key1, rs). (runner_state0, rew))
        (while_option cond_fn (body_fn lib self predict_fn)
           (env_state0, ob,
            replicate (env_n_envs (env self)) 0,
            replicate (env_n_envs (env self)) False,
            key'', runner_state0)))"

text \<open>The accumulated rewards and the done mask of a loop state.\<close>

definition reward_of :: "('k, 'os, 'es, 'o) episode_state \<Rightarrow> real list" where
  "reward_of st = (case st of (es, ob, rew, dn, key, rs) \<Rightarrow> rew)"

definition done_of :: "('k, 'os, 'es, 'o) episode_state \<Rightarrow> bool list" where
  "done_of st = (case st of (es, ob, rew, dn, key, rs) \<Rightarrow> dn)"

subsection \<open>The TD error as the specification words it\<close>

text \<open>
  Written from the specification, to be compared with \<open>td_error_of\<close>:
  \<open>reward + (1 - done) * gamma * max_a Q_target(next_obs, a) - Q_online(prev_obs, action_taken)\<close>,
  where \<open>Q_target\<close> is the target network when \<open>use_target_network\<close> is set and the
  online network otherwise.
\<close>

definition td_error_spec ::
  "('k, 'os, 'o) library \<Rightarrow> ('k, 'es, 'o, 'i) dqn \<Rightarrow> 'os train_state \<Rightarrow> 'o list \<Rightarrow>
   nat list \<Rightarrow> real list \<Rightarrow> bool list \<Rightarrow> 'o list \<Rightarrow> real list" where
  "td_error_spec lib self ts prev_obs act rew dn next_obs =
     (let q_target = apply_fn lib (if use_target_network (hpo self) then target_params ts
                                   else params ts) next_obs;
          q_online = apply_fn lib (params ts) prev_obs
      in map (\<lambda>(r, d, target_row, online_row, a).
                r + not_done d * gamma (hpo self) * jnp_max target_row - online_row ! a)
             (zip rew (zip dn (zip q_target (zip q_online act)))))"

subsection \<open>A small instance\<close>

text \<open>
  One environment with two actions; it pays reward 1 on every step except each fourth
  one, where the episode ends. The network ignores the observation: its parameters are
  the two action-values. Keys are numbers; \<open>split\<close> sends \<open>k\<close> to \<open>2k+1\<close> and \<open>2k+2\<close>.
\<close>

definition demo_hpo :: hpo_config where
  "demo_hpo = get_default_hpo_config
     \<lparr>buffer_size := 4, buffer_batch_size := 1, buffer_alpha := 1, gamma := 1 / 2\<rparr>"

definition demo_options :: env_options where
  "demo_options = \<lparr>n_envs = 1, n_total_timesteps = 16\<rparr>"

definition demo_env :: "(nat, nat, nat, unit) environment" where
  "demo_env =
     \<lparr>action_space = Discrete Gymnax 2,
      env_n_envs = 1,
      env_reset = (\<lambda>k. (0, [0])),
      env_step = (\<lambda>es a k. (es + 1,
                    ([es + 1], [if (es + 1) mod 4 = 0 then 0 else 1], [(es + 1) mod 4 = 0], ()))),
      sample_action = (\<lambda>k. 0)\<rparr>"

definition demo_lib :: "(nat, unit, nat) library" where
  "demo_lib =
     \<lparr>split = (\<lambda>k. (2 * k + 1, 2 * k + 2)),
      uniform = (\<lambda>k. if even k then 0 else 1),
      apply_fn = (\<lambda>ps os. map (\<lambda>ob. ps) os),
      grad = (\<lambda>f ps. map (\<lambda>p. 0) ps),
      tx = (\<lambda>g os ps. (map2 (\<lambda>p d. p - d) ps g, os)),
      run_sample = (\<lambda>fn bs k.
         \<lparr>last_obs = [0], obs = [1], action = [0], reward = [1], done_flag = [False]\<rparr>)\<rparr>"

definition demo_dqn :: "(nat, nat, nat, unit) dqn" where
  "demo_dqn =
     \<lparr>hpo = demo_hpo, nas = get_default_nas_config, options = demo_options, env = demo_env,
      track_metrics = True, track_trajectories = False,
      network = \<lparr>action_size = 2, discrete = True, net_activation = Tanh,
                 net_hidden_size = 64\<rparr>,
      buffer = \<lparr>max_length = 4, min_length = 1, sample_batch_size = 1, add_sequences = False,
                add_batch_size = 1, priority_exponent = 9 / 10, sample = PrioritisedSample\<rparr>\<rparr>"

definition demo_train_state :: "unit train_state" where
  "demo_train_state = \<lparr>step = 0, params = [5, 7], target_params = [2, 9], opt_state = ()\<rparr>"

definition demo_runner :: "32 word \<Rightarrow> (nat, unit, nat, nat) runner_state" where
  "demo_runner gs =
     \<lparr>rng = 0, train_state = demo_train_state, env_state = 0, runner_obs = [0],
      global_step = gs\<rparr>"

definition demo_buffer_state :: "nat buffer_state" where
  "demo_buffer_state =
     \<lparr>experience = replicate 4 (0, 0, 0, 0, False), current_index = 0,
      priorities = replicate 4 (Some 0), valid_length = 0\<rparr>"

text \<open>
  Two environments for the evaluator: both pay reward 1 on every step, forever; the
  first reports done from its second step on, the second from its fourth.
\<close>

definition demo_eval_env :: "(nat, nat, nat, unit) environment" where
  "demo_eval_env =
     \<lparr>action_space = Discrete Gymnax 2,
      env_n_envs = 2,
      env_reset = (\<lambda>k. (0, [0, 0])),
      env_step = (\<lambda>es a k. (es + 1,
                    ([es + 1, es + 1], [1, 1], [2 \<le> es + 1, 4 \<le> es + 1], ()))),
      sample_action = (\<lambda>k. 0)\<rparr>"

definition demo_eval_dqn :: "(nat, nat, nat, unit) dqn" where
  "demo_eval_dqn = demo_dqn\<lparr>env := demo_eval_env\<rparr>"

definition demo_predict :: "(nat, unit, nat, nat) runner_state \<Rightarrow> nat list \<Rightarrow> nat \<Rightarrow> nat list" where
  "demo_predict rs ob k = predict demo_lib (params (train_state rs)) ob k"

section \<open>Properties\<close>

lemmas demo_defs = demo_dqn_def demo_hpo_def demo_env_def demo_options_def demo_lib_def
  demo_train_state_def demo_runner_def demo_buffer_state_def get_default_hpo_config_def
  get_default_nas_config_def make_prioritised_flat_buffer_def

lemma DQN_init_demo:
  "DQN_init make_prioritised_flat_buffer demo_hpo demo_options demo_env None False True
     = Inr demo_dqn"
  by (simp add: DQN_init_def demo_defs Let_def)

text \<open>The small instance, field by field.\<close>

lemma demo_apply: "apply_fn demo_lib ps os = map (\<lambda>ob. ps) os"
  by (simp add: demo_lib_def)

lemma demo_uniform: "uniform demo_lib k = (if even k then 0 else 1)"
  by (simp add: demo_lib_def)

lemma demo_split: "split demo_lib k = (2 * k + 1, 2 * k + 2)"
  by (simp add: demo_lib_def)

lemma demo_cfg:
  "use_target_network (hpo demo_dqn)" "gamma (hpo demo_dqn) = 1 / 2"
  "buffer_alpha (hpo demo_dqn) = 1" "buffer_epsilon (hpo demo_dqn) = 1 / 100000"
  "epsilon (hpo demo_dqn) = 1 / 10" "n_envs (options demo_dqn) = 1"
  "train_frequency (hpo demo_dqn) = 4" "learning_starts (hpo demo_dqn) = 10000"
  "target_network_update_freq (hpo demo_dqn) = 100" "tau (hpo demo_dqn) = 1"
  "buffer_batch_size (hpo demo_dqn) = 1" "track_metrics demo_dqn"
  "\<not> track_trajectories demo_dqn"
  by (simp_all add: demo_dqn_def demo_hpo_def get_default_hpo_config_def demo_options_def)

lemma demo_env_step:
  "env_step (env demo_dqn) es a k =
     (es + 1, ([es + 1], [if (es + 1) mod 4 = 0 then 0 else 1], [(es + 1) mod 4 = 0], ()))"
  "sample_action (env demo_dqn) k = 0"
  by (simp_all add: demo_dqn_def demo_env_def)

lemma demo_ts:
  "params demo_train_state = [5, 7]" "target_params demo_train_state = [2, 9]"
  "step demo_train_state = 0" "opt_state demo_train_state = ()"
  by (simp_all add: demo_train_state_def)

lemma demo_bs:
  "experience demo_buffer_state =
     [(0, 0, 0, 0, False), (0, 0, 0, 0, False), (0, 0, 0, 0, False), (0, 0, 0, 0, False)]"
  "current_index demo_buffer_state = 0"
  "priorities demo_buffer_state = [Some 0, Some 0, Some 0, Some 0]"
  "valid_length demo_buffer_state = 0"
  by (simp_all add: demo_buffer_state_def numeral_eq_Suc)

lemma demo_add:
  "add demo_buffer_state
     \<lparr>last_obs = [lo], obs = [ob], action = [a], reward = [r], done_flag = [d]\<rparr>
   = demo_buffer_state
       \<lparr>experience := [(lo, ob, a, r, d), (0, 0, 0, 0, False), (0, 0, 0, 0, False),
                       (0, 0, 0, 0, False)],
        current_index := 1, valid_length := 1\<rparr>"
  by (simp add: add_def items_of_def capacity_def demo_bs)

lemmas step_defs = take_step_def random_action_def greedy_action_def target_td_def
  no_target_td_def td_error_of_def argmax_def jnp_take_def jnp_power_def not_done_def
  priority_weight_def

text \<open>
  The first rollout step of the instance, from key 0 (split into 1 and 2), environment
  state 0 and the empty buffer. The coin flip is 1, not below \<open>epsilon\<close>, so the action is
  the greedy one: action 1, whose online value is 7. The environment returns reward 1
  and \<open>done = False\<close>. The target network's values at the next observation are 2 and 9.
\<close>

lemma demo_take_step:
  "take_step demo_lib demo_dqn 1 2 demo_train_state [0] ([0], 0, 0, demo_buffer_state)
   = (([1], 1, 1,
       demo_buffer_state
         \<lparr>experience := [(0, 1, 1, 1, False), (0, 0, 0, 0, False), (0, 0, 0, 0, False),
                         (0, 0, 0, 0, False)],
          current_index := 1, valid_length := 1,
          priorities := [Some 0, Some (550001 / 100000), Some 0, Some 0]\<rparr>),
      ([1], [1], [1], [False], (), [Some (- (11 / 2))]))"
  by (simp add: step_defs demo_apply demo_uniform demo_cfg demo_env_step demo_ts demo_add
      set_priorities_def demo_bs Let_def)

subsection \<open>Construction\<close>

text \<open>
  Claim C1: sampling is priority-weighted unless uniform sampling is configured; with
  \<^verbatim>\<open>buffer_prio_sampling\<close> set to \<^verbatim>\<open>True\<close> sampling is priority-weighted.

  The constructor does the opposite. With the default configuration and
  \<^verbatim>\<open>buffer_prio_sampling = True\<close> it replaces the buffer's sample function by
  \<^verbatim>\<open>uniform_sample\<close> (batch size 64, sequence length 2, period 1); with
  \<^verbatim>\<open>buffer_prio_sampling = False\<close> it keeps the priority-weighted one.
\<close>

theorem C1_prio_sampling_installs_uniform:
  "map_sum id (\<lambda>alg. sample (buffer alg))
     (DQN_init make_prioritised_flat_buffer
        (get_default_hpo_config\<lparr>buffer_prio_sampling := True\<rparr>) demo_options demo_env
        None False False) = Inr (UniformSample 64 2 1)
   \<and> map_sum id (\<lambda>alg. sample (buffer alg))
     (DQN_init make_prioritised_flat_buffer
        (get_default_hpo_config\<lparr>buffer_prio_sampling := False\<rparr>) demo_options demo_env
        None False False) = Inr PrioritisedSample"
  by (simp add: DQN_init_def demo_defs Let_def)

text \<open>
  Claim C4, as stated: constructing the algorithm on an environment with a Box action
  space fails. It does not: a Box space of shape \<open>[3]\<close> is accepted.
\<close>

theorem C4_box_is_accepted:
  "\<not> isl (DQN_init make_prioritised_flat_buffer demo_hpo demo_options
            (demo_env\<lparr>action_space := Box Gymnax [3]\<rparr>) None False False)"
  by (simp add: DQN_init_def demo_defs Let_def)

text \<open>
  Claim C4, amended: on an action space that is neither Discrete nor Box, construction
  fails with \<^verbatim>\<open>NotImplementedError\<close>, before the buffer is built. A Discrete space with \<open>n\<close>
  actions passes the check with action size \<open>n\<close> and \<open>discrete = True\<close>, a Box space
  with a non-empty shape with action size \<open>shape[0]\<close> and \<open>discrete = False\<close>; on these
  construction fails exactly when the construction of the buffer fails, with its error.
  This holds for every buffer constructor \<open>fbx_make\<close>.
\<close>

theorem C4_only_other_spaces_rejected:
  "(\<forall>name. action_space e = OtherSpace name \<longrightarrow>
      DQN_init fbx_make hpo_cfg opts e nas_opt tt tm = Inl NotImplementedError)
   \<and> (\<forall>lib n. action_space e = Discrete lib n \<longrightarrow>
        map_sum id (\<lambda>alg. (action_size (network alg), discrete (network alg)))
          (DQN_init fbx_make hpo_cfg opts e nas_opt tt tm)
        = map_sum id (\<lambda>buf. (n, True))
            (fbx_make (buffer_size hpo_cfg) (buffer_batch_size hpo_cfg)
               (buffer_batch_size hpo_cfg) False (n_envs opts)
               (case buffer_beta hpo_cfg of Some b \<Rightarrow> b | None \<Rightarrow> 1)))
   \<and> (\<forall>lib d ds. action_space e = Box lib (d # ds) \<longrightarrow>
        map_sum id (\<lambda>alg. (action_size (network alg), discrete (network alg)))
          (DQN_init fbx_make hpo_cfg opts e nas_opt tt tm)
        = map_sum id (\<lambda>buf. (d, False))
            (fbx_make (buffer_size hpo_cfg) (buffer_batch_size hpo_cfg)
               (buffer_batch_size hpo_cfg) False (n_envs opts)
               (case buffer_beta hpo_cfg of Some b \<Rightarrow> b | None \<Rightarrow> 1)))"
  by (cases "action_space e")
     (auto simp: DQN_init_def Let_def split: list.splits sum.splits)

text \<open>
  The instance on three action spaces, and the default configuration with no
  environment at all (\<open>n_envs = 0\<close>), where the buffer constructor divides by zero.
\<close>

theorem C4_only_other_spaces_rejected_witness:
  "DQN_init make_prioritised_flat_buffer demo_hpo demo_options
     (demo_env\<lparr>action_space := OtherSpace ''Dict''\<rparr>) None False False
     = Inl NotImplementedError
   \<and> map_sum id (\<lambda>alg. (action_size (network alg), discrete (network alg)))
       (DQN_init make_prioritised_flat_buffer demo_hpo demo_options
          (demo_env\<lparr>action_space := Discrete Gym 2\<rparr>) None False False) = Inr (2, True)
   \<and> map_sum id (\<lambda>alg. (action_size (network alg), discrete (network alg)))
       (DQN_init make_prioritised_flat_buffer demo_hpo demo_options
          (demo_env\<lparr>action_space := Box Gymnasium [3, 2]\<rparr>) None False False)
       = Inr (3, False)
   \<and> map_sum id (\<lambda>alg. (action_size (network alg), discrete (network alg)))
       (DQN_init make_prioritised_flat_buffer get_default_hpo_config
          (demo_options\<lparr>n_envs := 0\<rparr>)
          (demo_env\<lparr>action_space := Box Gymnasium [3, 2]\<rparr>) None False False)
       = Inl ZeroDivisionError"
  using
    C4_only_other_spaces_rejected [of
      "demo_env\<lparr>action_space := OtherSpace ''Dict''\<rparr>" make_prioritised_flat_buffer
      demo_hpo demo_options None False False]
    C4_only_other_spaces_rejected [of
      "demo_env\<lparr>action_space := Discrete Gym 2\<rparr>" make_prioritised_flat_buffer
      demo_hpo demo_options None False False]
    C4_only_other_spaces_rejected [of
      "demo_env\<lparr>action_space := Box Gymnasium [3, 2]\<rparr>" make_prioritised_flat_buffer
      demo_hpo demo_options None False False]
    C4_only_other_spaces_rejected [of
      "demo_env\<lparr>action_space := Box Gymnasium [3, 2]\<rparr>" make_prioritised_flat_buffer
      get_default_hpo_config "demo_options\<lparr>n_envs := 0\<rparr>" None False False]
  by (simp add: demo_defs Let_def)

subsection \<open>TD error and priorities in the rollout\<close>

text \<open>
  Claim C2: the TD error of a transition is
  \<open>reward + (1 - done) * gamma * max_a Q_target(next_obs, a) - Q_online(prev_obs, action)\<close>:
  the bootstrap term is the maximum action-value, not an action index.

  \<^verbatim>\<open>take_step\<close> bootstraps from \<^verbatim>\<open>argmax\<close>, the index of the best action. In the first
  step of the instance the target values at the next observation are 2 and 9: the code
  computes \<open>1 + 1 * 1/2 * 1 - 7 = -11/2\<close> (index 1), the claim's formula gives
  \<open>1 + 1 * 1/2 * 9 - 7 = -3/2\<close>.
\<close>

theorem C2_td_error_bootstraps_from_argmax:
  "out_action (snd (take_step demo_lib demo_dqn 1 2 demo_train_state [0]
                      ([0], 0, 0, demo_buffer_state))) = [1]
   \<and> out_td_error (snd (take_step demo_lib demo_dqn 1 2 demo_train_state [0]
                      ([0], 0, 0, demo_buffer_state))) = [Some (- (11 / 2))]
   \<and> td_error_spec demo_lib demo_dqn demo_train_state [0] [1] [1] [False] [1] = [- (3 / 2)]"
  unfolding demo_take_step
  by (simp add: out_action_def out_td_error_def td_error_spec_def demo_apply
      demo_cfg demo_ts not_done_def)

text \<open>
  Claim C3: after a rollout step has written its batch, the priority in the slot of each
  newly written transition with TD error \<open>e\<close> is \<open>(|e| + buffer_epsilon) ^ buffer_alpha\<close>.

  \<^verbatim>\<open>take_step\<close> computes the indices from \<open>current_index\<close> of the buffer state that
  \<^verbatim>\<open>add\<close> returned, which already points behind the batch. In the first step of the
  instance the transition goes to slot 0 and its TD error is \<open>-11/2\<close>; slot 0 keeps the
  priority it had, and the weight \<open>(11/2 + 1/100000) ^ 1\<close> lands in slot 1, which holds
  no transition yet.
\<close>

theorem C3_priority_lands_in_next_slot:
  "current_index demo_buffer_state = 0
   \<and> experience (carry_buffer (fst (take_step demo_lib demo_dqn 1 2 demo_train_state [0]
                      ([0], 0, 0, demo_buffer_state)))) ! 0 = (0, 1, 1, 1, False)
   \<and> priorities (carry_buffer (fst (take_step demo_lib demo_dqn 1 2 demo_train_state [0]
                      ([0], 0, 0, demo_buffer_state)))) ! 0
       = priorities demo_buffer_state ! 0
   \<and> priorities (carry_buffer (fst (take_step demo_lib demo_dqn 1 2 demo_train_state [0]
                      ([0], 0, 0, demo_buffer_state)))) ! 0
       \<noteq> Some (jnp_power (\<bar>- (11 / 2)\<bar> + buffer_epsilon (hpo demo_dqn))
                 (buffer_alpha (hpo demo_dqn)))
   \<and> priorities (carry_buffer (fst (take_step demo_lib demo_dqn 1 2 demo_train_state [0]
                      ([0], 0, 0, demo_buffer_state)))) ! 1
       = Some (jnp_power (\<bar>- (11 / 2)\<bar> + buffer_epsilon (hpo demo_dqn))
                 (buffer_alpha (hpo demo_dqn)))"
  unfolding demo_take_step
  by (simp add: carry_buffer_def demo_bs demo_cfg jnp_power_def)

subsection \<open>The step counter\<close>

lemma scan_Suc_fst: "fst (scan f c (Suc n)) = fst (scan f (fst (f c)) n)"
  by (simp split: prod.splits)

lemma scan_Suc_snd: "snd (scan f c (Suc n)) = snd (f c) # snd (scan f (fst (f c)) n)"
  by (simp split: prod.splits)

text \<open>A component of the carry that every step advances by \<open>d\<close> has advanced by \<open>n * d\<close> after \<open>n\<close> steps.\<close>

lemma scan_counter:
  fixes g :: "'c \<Rightarrow> 'a::semiring_1"
  assumes "\<And>c. g (fst (f c)) = g c + d"
  shows "g (fst (scan f c n)) = g c + of_nat n * d"
proof (induction n arbitrary: c)
  case 0
  show ?case by simp
next
  case (Suc n)
  have "g (fst (scan f c (Suc n))) = g (fst (f c)) + of_nat n * d"
    by (simp only: scan_Suc_fst Suc.IH)
  also have "\<dots> = g c + of_nat (Suc n) * d"
    by (simp add: assms algebra_simps)
  finally show ?case .
qed

lemma rollout_global_step:
  "fst (snd (snd (fst (rollout lib self key key' ts lo (ob, es, gs, bs)))))
     = gs + of_nat (train_frequency (hpo self)) * of_nat (n_envs (options self))"
proof -
  have "\<And>c. (\<lambda>c. fst (snd (snd c))) (fst (take_step lib self key key' ts lo c))
           = (\<lambda>c. fst (snd (snd c))) c + of_nat (n_envs (options self))"
    by (simp add: take_step_def Let_def split: prod.splits)
  from scan_counter [where g = "\<lambda>c. fst (snd (snd c))", OF this]
  show ?thesis by (simp add: rollout_def)
qed

lemma update_step_global_step:
  "global_step (fst (fst (update_step lib self (rs, bs))))
     = global_step rs + of_nat (train_frequency (hpo self)) * of_nat (n_envs (options self))"
  using rollout_global_step [of lib self "fst (split lib (rng rs))" "snd (split lib (rng rs))"
      "train_state rs" "runner_obs rs" "runner_obs rs" "env_state rs" "global_step rs" bs]
  by (simp add: update_step_def case_prod_beta Let_def)

lemma iterations_global_step:
  "global_step (fst (fst (scan (update_step lib self) (rs, bs) N)))
     = global_step rs
       + of_nat (N * train_frequency (hpo self) * n_envs (options self))"
proof -
  have "(\<lambda>c. global_step (fst c)) (fst (update_step lib self c))
           = (\<lambda>c. global_step (fst c)) c
             + of_nat (train_frequency (hpo self)) * of_nat (n_envs (options self))" for c
    by (cases c) (simp add: update_step_global_step)
  from scan_counter [where g = "\<lambda>c. global_step (fst c)", OF this]
  show ?thesis by (simp add: algebra_simps)
qed

text \<open>Adding a count to a 32-bit signed integer is exact as long as the sum stays below \<open>2^31\<close>.\<close>

lemma sint_add_no_overflow:
  fixes w :: "32 word"
  assumes "sint w + int k \<le> 2147483647"
  shows "sint (w + of_nat k) = sint w + int k"
proof -
  have "w + of_nat k = word_of_int (sint w + int k)"
    by simp
  then have "sint (w + of_nat k) = signed_take_bit 31 (sint w + int k)"
    by (simp only: sint_sbintrunc') simp
  also have "\<dots> = sint w + int k"
  proof (rule signed_take_bit_int_eq_self)
    show "- (2 ^ 31) \<le> sint w + int k"
      using sint_ge [of w] by simp
    show "sint w + int k < 2 ^ 31"
      using assms by simp
  qed
  finally show ?thesis .
qed

text \<open>
  Claim C7, as stated: for every initial \<open>global_step\<close> and every \<open>N\<close> the counter after
  \<open>N\<close> outer iterations is the initial value plus \<open>N * train_frequency * n_envs\<close>. The
  counter has 32 bits: one iteration of the instance (4 steps, one environment) from
  2147483646 ends at -2147483646, not at 2147483650.
\<close>

theorem C7_global_step_wraps:
  "sint (global_step (fst (fst (scan (update_step demo_lib demo_dqn)
           (demo_runner 2147483646, demo_buffer_state) 1)))) = - 2147483646
   \<and> sint (global_step (demo_runner 2147483646))
         + 1 * int (train_frequency (hpo demo_dqn)) * int (n_envs (options demo_dqn))
       = 2147483650"
  unfolding iterations_global_step
  by (simp add: demo_cfg demo_runner_def)

text \<open>
  Claim C7, amended: the counter after \<open>N\<close> outer iterations is the initial value plus
  \<open>N * train_frequency * n_envs\<close> in 32-bit two's-complement arithmetic (modulo \<open>2^32\<close>);
  it is that integer exactly whenever it does not exceed \<open>2^31 - 1\<close>.
\<close>

theorem C7_global_step_after_iterations:
  "global_step (fst (fst (scan (update_step lib self) (rs, bs) N)))
     = global_step rs + of_nat (N * train_frequency (hpo self) * n_envs (options self))
   \<and> (sint (global_step rs) + int (N * train_frequency (hpo self) * n_envs (options self))
         \<le> 2147483647 \<longrightarrow>
       sint (global_step (fst (fst (scan (update_step lib self) (rs, bs) N))))
         = sint (global_step rs) + int N * int (train_frequency (hpo self))
             * int (n_envs (options self)))"
proof (intro conjI impI)
  show "global_step (fst (fst (scan (update_step lib self) (rs, bs) N)))
     = global_step rs + of_nat (N * train_frequency (hpo self) * n_envs (options self))"
    by (rule iterations_global_step)
next
  assume "sint (global_step rs) + int (N * train_frequency (hpo self) * n_envs (options self))
         \<le> 2147483647"
  from sint_add_no_overflow [OF this]
  show "sint (global_step (fst (fst (scan (update_step lib self) (rs, bs) N))))
         = sint (global_step rs) + int N * int (train_frequency (hpo self))
             * int (n_envs (options self))"
    unfolding iterations_global_step by simp
qed

text \<open>Four outer iterations of the instance (4 steps each, one environment) from step 0.\<close>

theorem C7_global_step_after_iterations_witness:
  "sint (global_step (demo_runner 0))
      + int (4 * train_frequency (hpo demo_dqn) * n_envs (options demo_dqn)) \<le> 2147483647
   \<and> sint (global_step (fst (fst (scan (update_step demo_lib demo_dqn)
           (demo_runner 0, demo_buffer_state) 4)))) = 16"
  using C7_global_step_after_iterations [where lib = demo_lib and self = demo_dqn
      and rs = "demo_runner 0" and bs = demo_buffer_state and N = 4]
  by (simp add: demo_cfg demo_runner_def)

subsection \<open>The two gates of an outer iteration\<close>

lemma update_step_unfold:
  "update_step lib self (rs, bs) =
     (let key = fst (split lib (rng rs)); key' = snd (split lib (rng rs));
          r = rollout lib self key key' (train_state rs) (runner_obs rs)
                (runner_obs rs, env_state rs, global_step rs, bs);
          gs1 = fst (snd (snd (fst r)));
          bs1 = snd (snd (snd (fst r)));
          u = cond_update lib self key gs1 (train_state rs) bs1
      in ((\<lparr>rng = key, train_state = cond_target_update self gs1 (fst u),
             env_state = fst (snd (fst r)), runner_obs = fst (fst r), global_step = gs1\<rparr>,
           bs1),
          make_metric self (fst (snd u)) (fst (snd (snd (snd u)))) (fst (snd (snd u))) (snd r)))"
  by (simp add: update_step_def case_prod_beta Let_def)

text \<open>The final train state: the second \<^verbatim>\<open>cond\<close> applied to the result of the first.\<close>

lemma update_step_train_state:
  "train_state (fst (fst (update_step lib self (rs, bs))))
     = cond_target_update self (global_step (fst (fst (update_step lib self (rs, bs)))))
         (fst (cond_update lib self (fst (split lib (rng rs)))
                 (global_step (fst (fst (update_step lib self (rs, bs)))))
                 (train_state rs) (snd (fst (update_step lib self (rs, bs))))))"
  by (simp add: update_step_unfold Let_def)

lemma cond_update_target_params:
  "target_params (fst (cond_update lib self key gs ts b)) = target_params ts"
  by (simp add: cond_update_def do_update_def dont_update_def update_def apply_gradients_def
      Let_def split: prod.splits)

lemma cond_target_update_params:
  "params (cond_target_update self gs ts) = params ts"
  "opt_state (cond_target_update self gs ts) = opt_state ts"
  "step (cond_target_update self gs ts) = step ts"
  by (simp_all add: cond_target_update_def target_update_def dont_target_update_def)

lemma cond_target_update_target_params:
  "target_params (cond_target_update self gs ts) =
     (if target_gate self gs
      then incremental_update (params ts) (target_params ts) (tau (hpo self))
      else target_params ts)"
  by (simp add: cond_target_update_def target_update_def dont_target_update_def)

text \<open>
  Claim C5: the target parameters after an outer iteration are those before it, unless
  the resulting \<open>global_step\<close> exceeds \<open>learning_starts\<close> and is a multiple of
  \<open>target_network_update_freq\<close>; only then they are the result of the target
  synchronizer (on the online parameters of the resulting train state).
\<close>

theorem C5_target_params_change_only_at_gate:
  "target_params (train_state (fst (fst (update_step lib self (rs, bs))))) =
     (if learning_starts (hpo self)
           < sint (global_step (fst (fst (update_step lib self (rs, bs)))))
         \<and> sint (global_step (fst (fst (update_step lib self (rs, bs)))))
             mod int (target_network_update_freq (hpo self)) = 0
      then incremental_update (params (train_state (fst (fst (update_step lib self (rs, bs))))))
             (target_params (train_state rs)) (tau (hpo self))
      else target_params (train_state rs))"
proof -
  define rs' where "rs' = fst (fst (update_step lib self (rs, bs)))"
  define ts1 where "ts1 = fst (cond_update lib self (fst (split lib (rng rs))) (global_step rs')
                                 (train_state rs) (snd (fst (update_step lib self (rs, bs)))))"
  have final: "train_state rs' = cond_target_update self (global_step rs') ts1"
    unfolding rs'_def ts1_def by (rule update_step_train_state)
  have online: "params (train_state rs') = params ts1"
    by (simp add: final cond_target_update_params)
  have kept: "target_params ts1 = target_params (train_state rs)"
    by (simp add: ts1_def cond_update_target_params)
  have "target_params (train_state rs') =
     (if learning_starts (hpo self) < sint (global_step rs')
         \<and> sint (global_step rs') mod int (target_network_update_freq (hpo self)) = 0
      then incremental_update (params (train_state rs')) (target_params (train_state rs))
             (tau (hpo self))
      else target_params (train_state rs))"
    by (simp add: online) (simp add: final cond_target_update_target_params kept target_gate_def)
  then show ?thesis by (simp only: rs'_def)
qed

lemma cond_update_closed:
  "\<not> update_gate self gs \<Longrightarrow>
     cond_update lib self key gs ts b =
       (ts, 0, replicate (buffer_batch_size (hpo self)) 1, params ts, opt_state ts)"
  by (simp add: cond_update_def dont_update_def mean_def)

lemma take_step_cong:
  assumes u: "uniform lib' key = uniform lib key"
    and ap: "apply_fn lib' = apply_fn lib"
    and h: "hpo self' = hpo self"
    and op: "options self' = options self"
    and sa: "sample_action (env self') = sample_action (env self)"
    and st: "\<And>es a. env_step (env self') es a key' = env_step (env self) es a key'"
  shows "take_step lib' self' key key' ts lo c = take_step lib self key key' ts lo c"
proof -
  have 1: "random_action self' key = random_action self key"
    by (simp only: random_action_def op sa)
  have 2: "greedy_action lib' ts lo = greedy_action lib ts lo"
    by (simp only: greedy_action_def ap)
  have 3: "target_td lib' = target_td lib" "no_target_td lib' = no_target_td lib"
    by (simp_all only: target_td_def no_target_td_def ap fun_eq_iff) simp_all
  have 4: "td_error_of lib' self' = td_error_of lib self"
    by (simp only: td_error_of_def ap h fun_eq_iff) simp
  show ?thesis
    by (simp only: take_step_def u h op st 1 2 3 4)
qed

lemma rollout_cong:
  assumes "uniform lib' key = uniform lib key"
    and "apply_fn lib' = apply_fn lib"
    and "hpo self' = hpo self"
    and "options self' = options self"
    and "sample_action (env self') = sample_action (env self)"
    and "\<And>es a. env_step (env self') es a key' = env_step (env self) es a key'"
  shows "rollout lib' self' key key' ts lo c = rollout lib self key key' ts lo c"
proof -
  have "take_step lib' self' key key' ts lo = take_step lib self key key' ts lo"
    by (rule ext) (rule take_step_cong [OF assms])
  then show ?thesis by (simp only: rollout_def assms(3))
qed

lemma rollout_run_sample:
  "rollout (lib\<lparr>run_sample := smp\<rparr>) self key key' ts lo c = rollout lib self key key' ts lo c"
  by (rule rollout_cong) simp_all

lemma make_metric_loss:
  "map_option metric_loss (make_metric self loss grads q_pred outs) =
     (if track_trajectories self \<or> track_metrics self then Some loss else None)"
  by (simp add: make_metric_def Let_def)

text \<open>
  Claim C6: when the update gate is false on the \<open>global_step\<close> the rollout returns, no
  batch is sampled, the train state is returned unchanged by the update branch (only the
  target synchronizer, gated on its own, acts on it afterwards, so the online parameters,
  the optimizer state and the step count are those before the iteration), and the
  reported loss is zero. That no batch is sampled is stated as: the result of the
  iteration is the same whatever the buffer's sample function returns.
\<close>

theorem C6_closed_gate_is_noop:
  assumes "\<not> (learning_starts (hpo self)
                < sint (global_step (fst (fst (update_step lib self (rs, bs)))))
              \<and> sint (global_step (fst (fst (update_step lib self (rs, bs)))))
                   mod int (train_frequency (hpo self)) = 0)"
  shows "train_state (fst (fst (update_step lib self (rs, bs))))
           = cond_target_update self (global_step (fst (fst (update_step lib self (rs, bs)))))
               (train_state rs)
       \<and> params (train_state (fst (fst (update_step lib self (rs, bs))))) = params (train_state rs)
       \<and> opt_state (train_state (fst (fst (update_step lib self (rs, bs))))) = opt_state (train_state rs)
       \<and> step (train_state (fst (fst (update_step lib self (rs, bs))))) = step (train_state rs)
       \<and> map_option metric_loss (snd (update_step lib self (rs, bs)))
           = (if track_trajectories self \<or> track_metrics self then Some 0 else None)
       \<and> (\<forall>smp. update_step (lib\<lparr>run_sample := smp\<rparr>) self (rs, bs) = update_step lib self (rs, bs))"
proof -
  define gs' where "gs' = global_step rs
      + of_nat (train_frequency (hpo self)) * of_nat (n_envs (options self))"
  have closed: "\<not> update_gate self gs'"
    using assms by (simp add: update_step_global_step gs'_def update_gate_def)
  have r_gs: "fst (snd (snd (fst (rollout lib self key key' ts lo (ob, es, global_step rs, b))))) = gs'"
    for key key' ts lo ob es b
    by (simp add: rollout_global_step gs'_def)
  have ts: "train_state (fst (fst (update_step lib self (rs, bs))))
              = cond_target_update self gs' (train_state rs)"
    by (simp add: update_step_unfold Let_def r_gs cond_update_closed [OF closed])
  have loss: "map_option metric_loss (snd (update_step lib self (rs, bs)))
           = (if track_trajectories self \<or> track_metrics self then Some 0 else None)"
    by (simp add: update_step_unfold Let_def r_gs cond_update_closed [OF closed] make_metric_loss)
  have smp: "update_step (lib\<lparr>run_sample := smp\<rparr>) self (rs, bs) = update_step lib self (rs, bs)" for smp
    by (simp add: update_step_unfold Let_def rollout_run_sample r_gs cond_update_closed [OF closed])
  have gs: "global_step (fst (fst (update_step lib self (rs, bs)))) = gs'"
    by (simp add: update_step_global_step gs'_def)
  show ?thesis
    by (simp add: ts gs cond_target_update_params loss smp)
qed

text \<open>The instance, started at \<open>global_step = 0\<close>: the counter reaches 4, below \<open>learning_starts\<close>.\<close>

theorem C6_closed_gate_is_noop_witness:
  "\<not> (learning_starts (hpo demo_dqn)
          < sint (global_step (fst (fst (update_step demo_lib demo_dqn
                                          (demo_runner 0, demo_buffer_state)))))
        \<and> sint (global_step (fst (fst (update_step demo_lib demo_dqn
                                          (demo_runner 0, demo_buffer_state)))))
            mod int (train_frequency (hpo demo_dqn)) = 0)
   \<and> params (train_state (fst (fst (update_step demo_lib demo_dqn (demo_runner 0, demo_buffer_state)))))
       = [5, 7]
   \<and> map_option metric_loss (snd (update_step demo_lib demo_dqn (demo_runner 0, demo_buffer_state)))
       = Some 0"
proof -
  have closed: "\<not> (learning_starts (hpo demo_dqn)
          < sint (global_step (fst (fst (update_step demo_lib demo_dqn
                                          (demo_runner 0, demo_buffer_state)))))
        \<and> sint (global_step (fst (fst (update_step demo_lib demo_dqn
                                          (demo_runner 0, demo_buffer_state)))))
            mod int (train_frequency (hpo demo_dqn)) = 0)"
    by (simp add: update_step_global_step demo_cfg demo_runner_def)
  from C6_closed_gate_is_noop [OF closed, THEN conjunct2] closed show ?thesis
    by (simp add: demo_runner_def demo_ts demo_cfg)
qed

subsection \<open>The keys of the rollout\<close>

lemma scan_outputs_const:
  assumes "\<And>c. h (snd (f c)) = v"
  shows "map h (snd (scan f c n)) = replicate n v"
proof (induction n arbitrary: c)
  case 0
  show ?case by simp
next
  case (Suc n)
  show ?case by (simp only: scan_Suc_snd list.map assms Suc.IH replicate_Suc)
qed

lemma take_step_action:
  "out_action (snd (take_step lib self key key' ts lo c)) =
     (if uniform lib key < epsilon (hpo self) then random_action self key
      else greedy_action lib ts lo)"
  by (simp add: take_step_def out_action_def Let_def split: prod.splits)

lemma cond_update_cong:
  "cond_update (lib\<lparr>uniform := u'\<rparr>) (self\<lparr>env := e'\<rparr>) key gs ts b = cond_update lib self key gs ts b"
  by (simp add: cond_update_def update_gate_def do_update_def dont_update_def update_def
      mse_loss_def apply_gradients_def Let_def cong: if_cong)

lemma cond_target_update_cong:
  "cond_target_update (self\<lparr>env := e'\<rparr>) gs ts = cond_target_update self gs ts"
  by (simp add: cond_target_update_def target_gate_def target_update_def cong: if_cong)

lemma make_metric_cong:
  "make_metric (self\<lparr>env := e'\<rparr>) loss grads q outs = make_metric self loss grads q outs"
  by (simp add: make_metric_def Let_def cong: if_cong)


lemma scan_iterates:
  assumes "\<And>c. h (fst (f c)) = F (h c)"
  shows "h (fst (scan f c n)) = (F ^^ n) (h c)"
proof (induction n arbitrary: c)
  case 0
  show ?case by simp
next
  case (Suc n)
  have "h (fst (scan f c (Suc n))) = (F ^^ n) (h (fst (f c)))"
    by (simp only: scan_Suc_fst Suc.IH)
  then show ?case by (simp add: assms funpow_swap1)
qed

lemma take_step_env_state:
  "fst (snd (fst (take_step lib self key key' ts lo c))) =
     fst (env_step (env self) (fst (snd c))
            (if uniform lib key < epsilon (hpo self) then random_action self key
             else greedy_action lib ts lo) key')"
  by (simp add: take_step_def Let_def split: prod.splits)

lemma rollout_env_state:
  "fst (snd (fst (rollout lib self key key' ts lo c))) =
     ((\<lambda>es. fst (env_step (env self) es
                    (if uniform lib key < epsilon (hpo self) then random_action self key
                     else greedy_action lib ts lo) key'))
        ^^ train_frequency (hpo self)) (fst (snd c))"
  unfolding rollout_def
  by (rule scan_iterates [where h = "\<lambda>c. fst (snd c)"]) (rule take_step_env_state)

lemma rollout_actions:
  "map out_action (snd (rollout lib self key key' ts lo c))
     = replicate (train_frequency (hpo self))
         (if uniform lib key < epsilon (hpo self) then random_action self key
          else greedy_action lib ts lo)"
  unfolding rollout_def by (rule scan_outputs_const) (rule take_step_action)

lemma make_metric_actions:
  "track_trajectories self \<Longrightarrow>
     Option.bind (make_metric self loss grads q outs) metric_actions = Some (map out_action outs)"
  by (auto simp: make_metric_def Let_def out_action_def split: prod.splits)

text \<open>
  Claim C10: within one outer iteration the key of the epsilon-greedy coin flip and the
  key that steps the environment are split once, before the rollout, and reused at each
  of the \<open>train_frequency\<close> steps; the explore-or-exploit decision is the same at all
  steps of the rollout.

  On the results of \<^verbatim>\<open>_update_step\<close>: the key it returns is the first half of one split
  of the incoming key. The environment state it returns is reached by \<open>train_frequency\<close>
  steps that all use the second half of that split as key and all take the same action,
  the one that a single coin flip on the first half decides between the random and the
  greedy action. When trajectories are tracked, the actions it reports are that action,
  \<open>train_frequency\<close> times. And the iteration reads \<^verbatim>\<open>jax.random.uniform\<close> at no other
  key than the first half and steps the environment with no other key than the second:
  changing \<open>uniform\<close> and \<open>env_step\<close> at all other keys changes nothing.
\<close>

theorem C10_keys_reused:
  "rng (fst (fst (update_step lib self (rs, bs)))) = fst (split lib (rng rs))
   \<and> env_state (fst (fst (update_step lib self (rs, bs))))
       = ((\<lambda>es. fst (env_step (env self) es
                      (if uniform lib (fst (split lib (rng rs))) < epsilon (hpo self)
                       then random_action self (fst (split lib (rng rs)))
                       else greedy_action lib (train_state rs) (runner_obs rs))
                      (snd (split lib (rng rs)))))
            ^^ train_frequency (hpo self)) (env_state rs)
   \<and> (track_trajectories self \<longrightarrow>
        Option.bind (snd (update_step lib self (rs, bs))) metric_actions
          = Some (replicate (train_frequency (hpo self))
                    (if uniform lib (fst (split lib (rng rs))) < epsilon (hpo self)
                     then random_action self (fst (split lib (rng rs)))
                     else greedy_action lib (train_state rs) (runner_obs rs))))
   \<and> (\<forall>u' st'.
         u' (fst (split lib (rng rs))) = uniform lib (fst (split lib (rng rs)))
         \<and> (\<forall>es a. st' es a (snd (split lib (rng rs)))
                     = env_step (env self) es a (snd (split lib (rng rs))))
         \<longrightarrow> update_step (lib\<lparr>uniform := u'\<rparr>) (self\<lparr>env := (env self)\<lparr>env_step := st'\<rparr>\<rparr>) (rs, bs)
             = update_step lib self (rs, bs))"
proof (intro conjI allI impI)
  show "rng (fst (fst (update_step lib self (rs, bs)))) = fst (split lib (rng rs))"
    by (simp add: update_step_unfold Let_def)
next
  show "env_state (fst (fst (update_step lib self (rs, bs))))
       = ((\<lambda>es. fst (env_step (env self) es
                      (if uniform lib (fst (split lib (rng rs))) < epsilon (hpo self)
                       then random_action self (fst (split lib (rng rs)))
                       else greedy_action lib (train_state rs) (runner_obs rs))
                      (snd (split lib (rng rs)))))
            ^^ train_frequency (hpo self)) (env_state rs)"
    by (simp add: update_step_unfold Let_def rollout_env_state)
next
  assume "track_trajectories self"
  then show "Option.bind (snd (update_step lib self (rs, bs))) metric_actions
          = Some (replicate (train_frequency (hpo self))
                    (if uniform lib (fst (split lib (rng rs))) < epsilon (hpo self)
                     then random_action self (fst (split lib (rng rs)))
                     else greedy_action lib (train_state rs) (runner_obs rs)))"
    by (simp add: update_step_unfold Let_def make_metric_actions rollout_actions)
next
  fix u' st'
  assume a: "u' (fst (split lib (rng rs))) = uniform lib (fst (split lib (rng rs)))
         \<and> (\<forall>es a. st' es a (snd (split lib (rng rs)))
                     = env_step (env self) es a (snd (split lib (rng rs))))"
  have ro: "rollout (lib\<lparr>uniform := u'\<rparr>) (self\<lparr>env := (env self)\<lparr>env_step := st'\<rparr>\<rparr>)
              (fst (split lib (rng rs))) (snd (split lib (rng rs))) ts lo c
            = rollout lib self (fst (split lib (rng rs))) (snd (split lib (rng rs))) ts lo c"
    for ts lo c
    by (rule rollout_cong) (simp_all add: a)
  show "update_step (lib\<lparr>uniform := u'\<rparr>) (self\<lparr>env := (env self)\<lparr>env_step := st'\<rparr>\<rparr>) (rs, bs)
             = update_step lib self (rs, bs)"
    by (simp add: update_step_unfold Let_def ro cond_update_cong cond_target_update_cong
        make_metric_cong)
qed

subsection \<open>The target synchronizer\<close>

lemma map2_first: "length xs = length ys \<Longrightarrow> map2 (\<lambda>p t. p) xs ys = xs"
  by (induction xs ys rule: list_induct2) simp_all

text \<open>
  Claim C9: the target synchronizer sets the target parameters to
  \<open>tau * online + (1 - tau) * target\<close>, leaf by leaf, and changes nothing else; with
  \<open>tau = 1\<close> the new target parameters are the online parameters.
\<close>

theorem C9_target_update_interpolates:
  "target_params (target_update self ts)
     = map2 (\<lambda>online target. tau (hpo self) * online + (1 - tau (hpo self)) * target)
         (params ts) (target_params ts)
   \<and> params (target_update self ts) = params ts
   \<and> opt_state (target_update self ts) = opt_state ts
   \<and> step (target_update self ts) = step ts
   \<and> (tau (hpo self) = 1 \<and> length (params ts) = length (target_params ts)
        \<longrightarrow> target_params (target_update self ts) = params ts)"
  by (simp add: target_update_def incremental_update_def map2_first)

text \<open>The instance with \<open>tau = 1\<close> (hard copy) and with \<open>tau = 1/4\<close>.\<close>

theorem C9_target_update_interpolates_witness:
  "tau (hpo demo_dqn) = 1
   \<and> length (params demo_train_state) = length (target_params demo_train_state)
   \<and> target_params (target_update demo_dqn demo_train_state) = [5, 7]
   \<and> target_params (target_update (demo_dqn\<lparr>hpo := demo_hpo\<lparr>tau := 1 / 4\<rparr>\<rparr>) demo_train_state)
       = [11 / 4, 17 / 2]"
  using C9_target_update_interpolates [of demo_dqn demo_train_state]
    C9_target_update_interpolates [of "demo_dqn\<lparr>hpo := demo_hpo\<lparr>tau := 1 / 4\<rparr>\<rparr>" demo_train_state]
  by (simp add: demo_cfg demo_ts)

subsection \<open>The evaluator\<close>

text \<open>One step of the loop, on the rewards and on the done mask.\<close>

lemma body_fn_reward:
  "reward_of (body_fn lib self p st)
     = map2 (\<lambda>r (r1, d). r + r1 * (if d then 0 else 1)) (reward_of st)
         (zip (fst (env_report lib self p st)) (done_of st))"
  by (cases st) (simp add: body_fn_def env_report_def reward_of_def done_of_def Let_def
      case_prod_beta)

lemma body_fn_mask:
  "done_of (body_fn lib self p st) = map2 (\<or>) (done_of st) (snd (env_report lib self p st))"
  by (cases st) (simp add: body_fn_def env_report_def reward_of_def done_of_def Let_def
      case_prod_beta)

lemma body_fn_lengths:
  "length (reward_of (body_fn lib self p st)) \<le> length (reward_of st)"
  "length (reward_of (body_fn lib self p st)) \<le> length (done_of st)"
  "length (done_of (body_fn lib self p st)) \<le> length (done_of st)"
  by (simp_all add: body_fn_reward body_fn_mask)

lemma body_fn_frozen:
  assumes "i < length (reward_of (body_fn lib self p st))" and "done_of st ! i"
  shows "reward_of (body_fn lib self p st) ! i = reward_of st ! i"
  using assms by (simp add: body_fn_reward)

lemma body_fn_done:
  assumes "i < length (done_of (body_fn lib self p st))" and "done_of st ! i"
  shows "done_of (body_fn lib self p st) ! i"
  using assms by (simp add: body_fn_mask)

lemma body_fn_reported:
  assumes "i < length (done_of (body_fn lib self p st))"
    and "snd (env_report lib self p st) ! i"
  shows "done_of (body_fn lib self p st) ! i"
  using assms by (simp add: body_fn_mask)

lemma iter_done_length:
  "length (done_of ((body_fn lib self p ^^ m) st)) \<le> length (done_of st)"
proof (induction m)
  case 0
  show ?case by simp
next
  case (Suc m)
  have "length (done_of ((body_fn lib self p ^^ Suc m) st))
          \<le> length (done_of ((body_fn lib self p ^^ m) st))"
    by (simp add: body_fn_lengths(3))
  with Suc.IH show ?case by linarith
qed

lemma iter_done:
  assumes "done_of st ! i"
  shows "i < length (done_of ((body_fn lib self p ^^ m) st)) \<Longrightarrow>
         done_of ((body_fn lib self p ^^ m) st) ! i"
proof (induction m)
  case 0
  then show ?case using assms by simp
next
  case (Suc m)
  let ?x = "(body_fn lib self p ^^ m) st"
  have "i < length (done_of ?x)"
    using Suc.prems body_fn_lengths(3) [of lib self p ?x] by simp
  then have "done_of ?x ! i" by (rule Suc.IH)
  with Suc.prems show ?case by (simp add: body_fn_done)
qed

lemma iter_frozen:
  assumes "done_of st ! i"
  shows "i < length (reward_of ((body_fn lib self p ^^ m) st)) \<Longrightarrow>
         reward_of ((body_fn lib self p ^^ m) st) ! i = reward_of st ! i"
proof (induction m)
  case 0
  show ?case by simp
next
  case (Suc m)
  let ?x = "(body_fn lib self p ^^ m) st"
  have lt: "i < length (reward_of (body_fn lib self p ?x))"
    using Suc.prems by simp
  have "i < length (reward_of ?x)"
    using lt body_fn_lengths(1) [of lib self p ?x] by simp
  then have ih: "reward_of ?x ! i = reward_of st ! i" by (rule Suc.IH)
  have "i < length (done_of ?x)"
    using lt body_fn_lengths(2) [of lib self p ?x] by simp
  then have "done_of ?x ! i" by (rule iter_done [OF assms])
  with lt have "reward_of (body_fn lib self p ?x) ! i = reward_of ?x ! i"
    by (rule body_fn_frozen)
  with ih show ?case by simp
qed

text \<open>A loop whose condition fails for the first time after \<open>n\<close> iterations returns the \<open>n\<close>-th iterate.\<close>

lemma while_option_iter:
  assumes "\<not> b ((c ^^ n) s)" and "\<And>j. j < n \<Longrightarrow> b ((c ^^ j) s)"
  shows "while_option b c s = Some ((c ^^ n) s)"
  using assms
proof (induction n arbitrary: s)
  case 0
  then show ?case by (simp add: while_option_unfold)
next
  case (Suc n)
  have "b s" using Suc.prems(2) [of 0] by simp
  moreover have "while_option b c (c s) = Some ((c ^^ n) (c s))"
  proof (rule Suc.IH)
    show "\<not> b ((c ^^ n) (c s))" using Suc.prems(1) by (simp add: funpow_swap1)
    show "b ((c ^^ j) (c s))" if "j < n" for j
      using Suc.prems(2) [of "Suc j"] that by (simp add: funpow_swap1)
  qed
  ultimately show ?case by (simp add: while_option_unfold [of b c s] funpow_swap1)
qed

text \<open>When \<^verbatim>\<open>_env_episode\<close> returns, the rewards are those of an iterate of \<^verbatim>\<open>body_fn\<close> on the initial state.\<close>

lemma env_episode_result:
  assumes "env_episode lib self p rs = Some (r, rewards)"
  shows "r = rs \<and> (\<exists>n. rewards = reward_of ((body_fn lib self p ^^ n)
       (fst (env_reset (env self) (snd (split lib (snd (split lib (rng rs)))))),
        snd (env_reset (env self) (snd (split lib (snd (split lib (rng rs)))))),
        replicate (env_n_envs (env self)) 0, replicate (env_n_envs (env self)) False,
        fst (split lib (snd (split lib (rng rs)))), rs)))"
proof -
  let ?init = "(fst (env_reset (env self) (snd (split lib (snd (split lib (rng rs)))))),
        snd (env_reset (env self) (snd (split lib (snd (split lib (rng rs)))))),
        replicate (env_n_envs (env self)) 0, replicate (env_n_envs (env self)) False,
        fst (split lib (snd (split lib (rng rs)))), rs)"
  have "env_episode lib self p rs
          = map_option (\<lambda>st. (rs, reward_of st))
              (while_option cond_fn (body_fn lib self p) ?init)"
    by (simp add: env_episode_def case_prod_beta reward_of_def cong: option.map_cong)
  with assms obtain final where
    w: "while_option cond_fn (body_fn lib self p) ?init = Some final"
    and res: "r = rs" "rewards = reward_of final"
    unfolding map_option_eq_Some by auto
  from while_option_stop2 [OF w] obtain n where "final = (body_fn lib self p ^^ n) ?init"
    by blast
  with res show ?thesis by blast
qed


text \<open>
  Claim C8: once an environment reports \<open>done\<close> in some step of the evaluation loop,
  its accumulated reward is the same after any number of further steps, whatever
  rewards the environment emits, and its done mask stays set; in every step the reward
  is added only where the done mask is still false, and the done mask is the logical OR
  of the mask and the flags the environment reports.

  Environment \<open>i\<close> reports done in the step taken after \<open>k\<close> steps; its reward after
  \<open>k + 1 + m\<close> steps is its reward after \<open>k + 1\<close> steps.
\<close>

theorem C8_reward_frozen_after_done:
  assumes "snd (env_report lib self p ((body_fn lib self p ^^ k) s)) ! i"
    and "i < length (reward_of ((body_fn lib self p ^^ (Suc k + m)) s))"
  shows "reward_of ((body_fn lib self p ^^ (Suc k + m)) s) ! i
           = reward_of ((body_fn lib self p ^^ Suc k) s) ! i
         \<and> (i < length (done_of ((body_fn lib self p ^^ (Suc k + m)) s))
              \<longrightarrow> done_of ((body_fn lib self p ^^ (Suc k + m)) s) ! i)
         \<and> reward_of (body_fn lib self p st)
             = map2 (\<lambda>r (r1, d). r + r1 * (if d then 0 else 1)) (reward_of st)
                 (zip (fst (env_report lib self p st)) (done_of st))
         \<and> done_of (body_fn lib self p st)
             = map2 (\<or>) (done_of st) (snd (env_report lib self p st))"
proof -
  let ?b = "body_fn lib self p"
  let ?x = "(?b ^^ k) s"
  let ?y = "(?b ^^ Suc k) s"
  have split: "(?b ^^ (Suc k + m)) s = (?b ^^ m) ?y"
    by (simp only: add.commute [of "Suc k" m] funpow_add o_apply)
  have y: "?y = ?b ?x" by simp
  have range: "i < length (reward_of ((?b ^^ m) ?y))"
    using assms(2) by (simp only: split)
  have frozen: "reward_of ((?b ^^ m) ?y) ! i = reward_of ?y ! i"
    and kept: "i < length (done_of ((?b ^^ m) ?y)) \<longrightarrow> done_of ((?b ^^ m) ?y) ! i"
  proof -
    have mask: "done_of ?y ! i" if "i < length (done_of ?y)"
      using that assms(1) unfolding y by (rule body_fn_reported)
    show "reward_of ((?b ^^ m) ?y) ! i = reward_of ?y ! i"
    proof (cases m)
      case 0
      then show ?thesis by simp
    next
      case (Suc n)
      have "i < length (reward_of (?b ((?b ^^ n) ?y)))"
        using range unfolding Suc by simp
      then have "i < length (done_of ((?b ^^ n) ?y))"
        using body_fn_lengths(2) [where lib = lib and self = self and p = p
            and st = "(?b ^^ n) ?y"] by simp
      then have "i < length (done_of ?y)"
        using iter_done_length [where lib = lib and self = self and p = p and m = n and st = ?y]
        by simp
      then have "done_of ?y ! i" by (rule mask)
      then show ?thesis
        using range by (rule iter_frozen)
    qed
    show "i < length (done_of ((?b ^^ m) ?y)) \<longrightarrow> done_of ((?b ^^ m) ?y) ! i"
    proof
      assume lt: "i < length (done_of ((?b ^^ m) ?y))"
      then have "i < length (done_of ?y)"
        using iter_done_length [where lib = lib and self = self and p = p and m = m and st = ?y]
        by simp
      then have "done_of ?y ! i" by (rule mask)
      then show "done_of ((?b ^^ m) ?y) ! i" using lt by (rule iter_done)
    qed
  qed
  show ?thesis
    unfolding split using frozen kept by (simp add: body_fn_reward body_fn_mask)
qed

end
